theory Spec2Isabelle
  imports Complex_Main "HOL-Library.Multiset" "HOL-Library.Sublist"
begin

section \<open>Data model of the finance page\<close>

text \<open>
  The interfaces \<^verbatim>\<open>StockItem\<close>, \<^verbatim>\<open>Movement\<close> and \<^verbatim>\<open>FinancialMetrics\<close> of the finance page.
  A JavaScript \<^verbatim>\<open>number\<close> is modelled as an exact real (rounding of doubles is not modelled),
  an array length as a natural number. The fields \<^verbatim>\<open>id\<close> and \<^verbatim>\<open>quantity\<close> of
  \<^verbatim>\<open>StockItem\<close> are called \<open>item_id\<close> and \<open>item_quantity\<close>, the field \<^verbatim>\<open>id\<close> of
  \<^verbatim>\<open>Movement\<close> is called \<open>movement_id\<close>.

  The interface declares \<^verbatim>\<open>stock: StockItem\<close>, but the movements are parsed JSON and the
  declaration is not checked at run time: the field is modelled as an option, where \<open>None\<close> is a
  \<^verbatim>\<open>null\<close> or missing object. Reading a property of it throws \<^verbatim>\<open>TypeError\<close>.
\<close>

datatype movement_kind = Purchase | Sale

record StockItem =
  item_id :: int
  reference :: string
  name :: string
  item_quantity :: real
  unit_price :: real
  total_value :: real

record Movement =
  movement_id :: int
  date :: string
  stock_id :: int
  movement_type :: movement_kind
  quantity :: real
  discount_percent :: real
  stock :: "StockItem option"

record FinancialMetrics =
  totalRevenue :: real
  monthlyRevenue :: real
  totalSales :: nat
  averageDiscount :: real
  totalPurchases :: nat
  netCashFlow :: real

record DateRange =
  startDate :: string
  endDate :: string

datatype error = TypeError

subsection \<open>The host: dates\<close>

text \<open>
  The built-in \<^verbatim>\<open>Date\<close> is a parameter of the model. \<open>parseDate s\<close> is the time value of
  \<^verbatim>\<open>new Date(s)\<close> in milliseconds, \<open>None\<close> for an invalid date (time value \<^verbatim>\<open>NaN\<close>);
  \<open>getMonth\<close> and \<open>getFullYear\<close> read a valid time value in the local time zone; \<open>now\<close> is the
  time value of \<^verbatim>\<open>new Date()\<close>, the same for every call during one evaluation.
\<close>

record Host =
  parseDate :: "string \<Rightarrow> int option"
  getMonth :: "int \<Rightarrow> nat"
  getFullYear :: "int \<Rightarrow> int"
  now :: int

text \<open>
  \<^verbatim>\<open>a >= b\<close> and \<^verbatim>\<open>a <= b\<close> on two dates compare the time values; a comparison with
  \<^verbatim>\<open>NaN\<close> is false.
\<close>

definition date_ge :: "int option \<Rightarrow> int option \<Rightarrow> bool" where
  "date_ge a b = (case a of None \<Rightarrow> False | Some x \<Rightarrow> (case b of None \<Rightarrow> False | Some y \<Rightarrow> x \<ge> y))"

definition date_le :: "int option \<Rightarrow> int option \<Rightarrow> bool" where
  "date_le a b = (case a of None \<Rightarrow> False | Some x \<Rightarrow> (case b of None \<Rightarrow> False | Some y \<Rightarrow> x \<le> y))"

text \<open>The callback of the date-range filter (lines 65-70 and 118-123).\<close>

definition inDateRange :: "Host \<Rightarrow> DateRange \<Rightarrow> Movement \<Rightarrow> bool" where
  "inDateRange host dateRange m =
     (let saleDate = parseDate host (date m);
          start = parseDate host (startDate dateRange);
          endD = parseDate host (endDate dateRange)
      in date_ge saleDate start \<and> date_le saleDate endD)"

text \<open>
  The callback of the current-month filter (lines 78-82). \<^verbatim>\<open>getMonth()\<close> of an invalid
  date is \<^verbatim>\<open>NaN\<close>, and \<^verbatim>\<open>NaN === x\<close> is false.
\<close>

definition inCurrentMonth :: "Host \<Rightarrow> Movement \<Rightarrow> bool" where
  "inCurrentMonth host m =
     (case parseDate host (date m) of
        None \<Rightarrow> False
      | Some saleDate \<Rightarrow>
          getMonth host saleDate = getMonth host (now host) \<and>
          getFullYear host saleDate = getFullYear host (now host))"

section \<open>calculateMetrics\<close>

text \<open>
  \<^verbatim>\<open>Array.prototype.reduce\<close> with an initial value and a callback that may throw: the first
  exception ends the reduction.
\<close>

fun reduceE :: "('b \<Rightarrow> 'a \<Rightarrow> error + 'b) \<Rightarrow> 'b \<Rightarrow> 'a list \<Rightarrow> error + 'b" where
  "reduceE f acc [] = Inr acc"
| "reduceE f acc (x # xs) = (case f acc x of Inl e \<Rightarrow> Inl e | Inr acc' \<Rightarrow> reduceE f acc' xs)"

text \<open>The reducer of \<^verbatim>\<open>totalRevenue\<close> and \<^verbatim>\<open>monthlyRevenue\<close> (lines 72-75, 83-86).\<close>

definition revenueStep :: "real \<Rightarrow> Movement \<Rightarrow> error + real" where
  "revenueStep acc m =
     (case stock m of
        None \<Rightarrow> Inl TypeError
      | Some s \<Rightarrow>
          (let priceAfterDiscount = unit_price s * (1 - discount_percent m / 100)
           in Inr (acc + (priceAfterDiscount * quantity m))))"

text \<open>The reducer of \<^verbatim>\<open>totalPurchaseCost\<close> (lines 96-98).\<close>

definition purchaseStep :: "real \<Rightarrow> Movement \<Rightarrow> error + real" where
  "purchaseStep acc m =
     (case stock m of
        None \<Rightarrow> Inl TypeError
      | Some s \<Rightarrow> Inr (acc + (unit_price s * quantity m)))"

definition calculateMetrics :: "Host \<Rightarrow> DateRange \<Rightarrow> Movement list \<Rightarrow> error + FinancialMetrics" where
  "calculateMetrics host dateRange movements =
     (let sales = filter (\<lambda>m. movement_type m = Sale) movements;
          purchases = filter (\<lambda>m. movement_type m = Purchase) movements;
          filteredSales = filter (inDateRange host dateRange) sales
      in case reduceE revenueStep 0 filteredSales of
           Inl e \<Rightarrow> Inl e
         | Inr totalRevenue_v \<Rightarrow>
      (case reduceE revenueStep 0 (filter (inCurrentMonth host) sales) of
           Inl e \<Rightarrow> Inl e
         | Inr monthlyRevenue_v \<Rightarrow>
      (let totalSales_v = length filteredSales;
           totalPurchases_v = length purchases;
           averageDiscount_v =
             (if length filteredSales > 0
              then foldl (\<lambda>acc s. acc + discount_percent s) 0 filteredSales
                     / real (length filteredSales)
              else 0)
       in case reduceE purchaseStep 0 purchases of
            Inl e \<Rightarrow> Inl e
          | Inr totalPurchaseCost \<Rightarrow>
       (let netCashFlow_v = totalRevenue_v - totalPurchaseCost
        in Inr \<lparr> totalRevenue = totalRevenue_v,
                 monthlyRevenue = monthlyRevenue_v,
                 totalSales = totalSales_v,
                 averageDiscount = averageDiscount_v,
                 totalPurchases = totalPurchases_v,
                 netCashFlow = netCashFlow_v \<rparr>))))"

section \<open>What the aggregation is meant to compute\<close>

text \<open>
  The movement carries its item (\<open>carriesItem\<close>), as the interface declares. The unit price of
  a movement is the one of the item object it carries, which is the item as it was when the
  movements were fetched; for a movement without item the price is taken as 0 here.
\<close>

definition carriesItem :: "Movement \<Rightarrow> bool" where
  "carriesItem m = (stock m \<noteq> None)"

definition unitPriceOf :: "Movement \<Rightarrow> real" where
  "unitPriceOf m = (case stock m of None \<Rightarrow> 0 | Some s \<Rightarrow> unit_price s)"

text \<open>\<open>line_total = unit_price * (1 - discount_percent / 100) * quantity\<close>.\<close>

definition lineTotal :: "Movement \<Rightarrow> real" where
  "lineTotal m = unitPriceOf m * (1 - discount_percent m / 100) * quantity m"

definition purchaseCost :: "Movement \<Rightarrow> real" where
  "purchaseCost m = unitPriceOf m * quantity m"

text \<open>
  A date lies in the range \<open>[start, end]\<close>, both ends included: the three dates are valid and
  \<open>start \<le> date \<le> end\<close> as time values.
\<close>

definition dateWithin :: "Host \<Rightarrow> DateRange \<Rightarrow> string \<Rightarrow> bool" where
  "dateWithin host dateRange d =
     (case parseDate host d of
        None \<Rightarrow> False
      | Some t \<Rightarrow>
     (case parseDate host (startDate dateRange) of
        None \<Rightarrow> False
      | Some s \<Rightarrow>
     (case parseDate host (endDate dateRange) of
        None \<Rightarrow> False
      | Some e \<Rightarrow> s \<le> t \<and> t \<le> e)))"

definition salesInRange :: "Host \<Rightarrow> DateRange \<Rightarrow> Movement list \<Rightarrow> Movement list" where
  "salesInRange host dateRange movements =
     filter (\<lambda>m. movement_type m = Sale \<and> dateWithin host dateRange (date m)) movements"

section \<open>getSalesForTable and getBestSellers\<close>

text \<open>
  \<^verbatim>\<open>Array.prototype.sort\<close> with a comparator. The sort is stable; an element \<open>x\<close> goes
  behind \<open>y\<close> when the comparator's value for \<open>(x, y)\<close> is positive, and a comparator value
  \<^verbatim>\<open>NaN\<close> (here \<open>None\<close>) counts as 0. It is modelled as insertion from the right, which
  computes the stable sorted order.
\<close>

definition compareResult :: "'n::{zero,linorder} option \<Rightarrow> 'n" where
  "compareResult v = (case v of None \<Rightarrow> 0 | Some n \<Rightarrow> n)"

fun insertBy :: "('a \<Rightarrow> 'a \<Rightarrow> 'n::{zero,linorder} option) \<Rightarrow> 'a \<Rightarrow> 'a list \<Rightarrow> 'a list" where
  "insertBy cmp x [] = [x]"
| "insertBy cmp x (y # ys) =
     (if compareResult (cmp x y) > 0 then y # insertBy cmp x ys else x # y # ys)"

definition sortBy :: "('a \<Rightarrow> 'a \<Rightarrow> 'n::{zero,linorder} option) \<Rightarrow> 'a list \<Rightarrow> 'a list" where
  "sortBy cmp xs = foldr (insertBy cmp) xs []"



text \<open>
  The \<^verbatim>\<open>Map\<close> of \<^verbatim>\<open>getBestSellers\<close> is an association list in insertion order:
  \<^verbatim>\<open>set\<close> on a key that is present replaces the value in place, on a new key it appends.
  \<^verbatim>\<open>get\<close> is \<open>map_of\<close>. The values are \<open>ItemSales\<close>, the entries of the result
  \<open>BestSeller\<close> (fields \<^verbatim>\<open>name\<close>, \<^verbatim>\<open>quantity\<close>, \<^verbatim>\<open>revenue\<close>).
\<close>

record ItemSales =
  sold_quantity :: real
  sold_revenue :: real

record BestSeller =
  bs_name :: string
  bs_quantity :: real
  bs_revenue :: real

fun mapSet :: "'k \<Rightarrow> 'v \<Rightarrow> ('k \<times> 'v) list \<Rightarrow> ('k \<times> 'v) list" where
  "mapSet k v [] = [(k, v)]"
| "mapSet k v ((k', v') # kvs) = (if k' = k then (k, v) # kvs else (k', v') # mapSet k v kvs)"

text \<open>The callback of \<^verbatim>\<open>sales.forEach\<close> (lines 132-141), acting on the Map.\<close>

definition bestSellerStep ::
  "(string \<times> ItemSales) list \<Rightarrow> Movement \<Rightarrow> error + (string \<times> ItemSales) list" where
  "bestSellerStep itemSales m =
     (case stock m of
        None \<Rightarrow> Inl TypeError
      | Some s \<Rightarrow>
          (let key = name s;
               existing = (case map_of itemSales key of
                             None \<Rightarrow> \<lparr> sold_quantity = 0, sold_revenue = 0 \<rparr>
                           | Some e \<Rightarrow> e);
               priceAfterDiscount = unit_price s * (1 - discount_percent m / 100)
           in Inr (mapSet key
                    \<lparr> sold_quantity = sold_quantity existing + quantity m,
                      sold_revenue = sold_revenue existing + (priceAfterDiscount * quantity m) \<rparr>
                    itemSales)))"

definition compareQuantityDesc :: "BestSeller \<Rightarrow> BestSeller \<Rightarrow> real option" where
  "compareQuantityDesc a b = Some (bs_quantity b - bs_quantity a)"

definition getBestSellers :: "Movement list \<Rightarrow> error + BestSeller list" where
  "getBestSellers movements =
     (let sales = filter (\<lambda>m. movement_type m = Sale) movements
      in case reduceE bestSellerStep [] sales of
           Inl e \<Rightarrow> Inl e
         | Inr itemSales \<Rightarrow>
             Inr (take 5
               (sortBy compareQuantityDesc
                 (map (\<lambda>(n, data). \<lparr> bs_name = n, bs_quantity = sold_quantity data,
                                    bs_revenue = sold_revenue data \<rparr>) itemSales))))"

subsection \<open>Best sellers as specified\<close>

text \<open>
  Group all sales by item name, in the order in which the names first occur, summing quantity
  and discounted revenue; sort by descending quantity, stably; keep the first \<open>limit\<close> groups.
\<close>

definition itemNameOf :: "Movement \<Rightarrow> string" where
  "itemNameOf m = (case stock m of None \<Rightarrow> [] | Some s \<Rightarrow> name s)"

definition namesInOrder :: "Movement list \<Rightarrow> string list" where
  "namesInOrder ms = rev (remdups (rev (map itemNameOf ms)))"

definition totalsOf :: "Movement list \<Rightarrow> string \<Rightarrow> ItemSales" where
  "totalsOf ms n =
     \<lparr> sold_quantity = sum_list (map quantity (filter (\<lambda>m. itemNameOf m = n) ms)),
       sold_revenue = sum_list (map lineTotal (filter (\<lambda>m. itemNameOf m = n) ms)) \<rparr>"

definition groupOf :: "Movement list \<Rightarrow> string \<Rightarrow> BestSeller" where
  "groupOf ms n =
     \<lparr> bs_name = n,
       bs_quantity = sold_quantity (totalsOf ms n),
       bs_revenue = sold_revenue (totalsOf ms n) \<rparr>"

definition salesByName :: "Movement list \<Rightarrow> BestSeller list" where
  "salesByName ms = map (groupOf ms) (namesInOrder ms)"

definition bestSellersSpec :: "nat \<Rightarrow> Movement list \<Rightarrow> BestSeller list" where
  "bestSellersSpec limit movements =
     take limit (sort_key (\<lambda>e. - bs_quantity e)
       (salesByName (filter (\<lambda>m. movement_type m = Sale) movements)))"

section \<open>calculateMetrics on the array store\<close>

text \<open>
  To state that an evaluation writes nothing, the arrays are placed in a store: a list of
  arrays, an array's reference being its index. \<^verbatim>\<open>filter\<close> allocates a new array and
  leaves its receiver as it is; \<^verbatim>\<open>reduce\<close> and \<^verbatim>\<open>length\<close> only read. The movement
  objects and the items inside them are never assigned to, so they are kept as values.
  A reference held by the program always points into the store.
\<close>

type_synonym store = "Movement list list"

definition arrayFilter :: "(Movement \<Rightarrow> bool) \<Rightarrow> nat \<Rightarrow> store \<Rightarrow> nat \<times> store" where
  "arrayFilter p a st = (length st, st @ [filter p (st ! a)])"

definition arrayReduce :: "('b \<Rightarrow> Movement \<Rightarrow> error + 'b) \<Rightarrow> 'b \<Rightarrow> nat \<Rightarrow> store \<Rightarrow> error + 'b" where
  "arrayReduce f z a st = reduceE f z (st ! a)"

definition arrayLength :: "nat \<Rightarrow> store \<Rightarrow> nat" where
  "arrayLength a st = length (st ! a)"

definition calculateMetricsIn ::
  "Host \<Rightarrow> DateRange \<Rightarrow> nat \<Rightarrow> store \<Rightarrow> (error + FinancialMetrics) \<times> store" where
  "calculateMetricsIn host dateRange movements st0 =
     (case arrayFilter (\<lambda>m. movement_type m = Sale) movements st0 of (sales, st1) \<Rightarrow>
      case arrayFilter (\<lambda>m. movement_type m = Purchase) movements st1 of (purchases, st2) \<Rightarrow>
      case arrayFilter (inDateRange host dateRange) sales st2 of (filteredSales, st3) \<Rightarrow>
      case arrayReduce revenueStep 0 filteredSales st3 of
        Inl e \<Rightarrow> (Inl e, st3)
      | Inr totalRevenue_v \<Rightarrow>
      case arrayFilter (inCurrentMonth host) sales st3 of (monthSales, st4) \<Rightarrow>
      case arrayReduce revenueStep 0 monthSales st4 of
        Inl e \<Rightarrow> (Inl e, st4)
      | Inr monthlyRevenue_v \<Rightarrow>
      (let totalSales_v = arrayLength filteredSales st4;
           totalPurchases_v = arrayLength purchases st4;
           averageDiscount_v =
             (if arrayLength filteredSales st4 > 0
              then foldl (\<lambda>acc s. acc + discount_percent s) 0 (st4 ! filteredSales)
                     / real (arrayLength filteredSales st4)
              else 0)
       in case arrayReduce purchaseStep 0 purchases st4 of
            Inl e \<Rightarrow> (Inl e, st4)
          | Inr totalPurchaseCost \<Rightarrow>
              (Inr \<lparr> totalRevenue = totalRevenue_v,
                     monthlyRevenue = monthlyRevenue_v,
                     totalSales = totalSales_v,
                     averageDiscount = averageDiscount_v,
                     totalPurchases = totalPurchases_v,
                     netCashFlow = totalRevenue_v - totalPurchaseCost \<rparr>, st4)))"

section \<open>The movement ledger\<close>

text \<open>
  Modelled from the spec: the movement ledger and the item registry (the backend, which is
  not part of the sources), after sections 3, 4.2 and 6 of the specification.
  An item is \<open>{id, reference, name, quantity, unit_price}\<close>, stored in the registry under its
  id (a deleted item is absent); a movement is
  \<open>{id, date, item_id, type, quantity, discount_percent}\<close>. Quantities are integers. The id
  of a new movement is its position in the ledger, its date the time of the request.
\<close>

record Item =
  it_reference :: string
  it_name :: string
  it_quantity :: int
  it_unit_price :: real

record LedgerMovement =
  lm_id :: nat
  lm_date :: int
  lm_item_id :: int
  lm_type :: movement_kind
  lm_quantity :: int
  lm_discount_percent :: real

record MovementRequest =
  rq_date :: int
  rq_item_id :: int
  rq_type :: movement_kind
  rq_quantity :: int
  rq_discount_percent :: real

record Core =
  registry :: "int \<Rightarrow> Item option"
  ledger :: "LedgerMovement list"

datatype ledger_error = ItemNotFound | InvalidQuantity | InvalidDiscount | InsufficientStock

text \<open>
  Modelled from the spec: one movement application (section 4.2). Step 1 validates (the item
  exists; the quantity is positive; for a sale the discount is in [0, 100]), step 2 checks
  availability for a sale, step 3 applies the quantity change, step 4 appends the movement.
  A rejected request returns the error and the state it was given.
\<close>

definition recordMovement ::
  "Core \<Rightarrow> MovementRequest \<Rightarrow> (ledger_error + LedgerMovement) \<times> Core" where
  "recordMovement core rq =
     (case registry core (rq_item_id rq) of
        None \<Rightarrow> (Inl ItemNotFound, core)
      | Some item \<Rightarrow>
          if rq_quantity rq \<le> 0 then (Inl InvalidQuantity, core)
          else if rq_type rq = Sale \<and> (rq_discount_percent rq < 0 \<or> 100 < rq_discount_percent rq)
            then (Inl InvalidDiscount, core)
          else if rq_type rq = Sale \<and> it_quantity item < rq_quantity rq
            then (Inl InsufficientStock, core)
          else
            (let item' = item \<lparr> it_quantity :=
                   (case rq_type rq of
                      Purchase \<Rightarrow> it_quantity item + rq_quantity rq
                    | Sale \<Rightarrow> it_quantity item - rq_quantity rq) \<rparr>;
                 mv = \<lparr> lm_id = length (ledger core) + 1,
                        lm_date = rq_date rq,
                        lm_item_id = rq_item_id rq,
                        lm_type = rq_type rq,
                        lm_quantity = rq_quantity rq,
                        lm_discount_percent =
                          (case rq_type rq of Purchase \<Rightarrow> 0 | Sale \<Rightarrow> rq_discount_percent rq) \<rparr>
             in (Inr mv,
                 core \<lparr> registry := (registry core)(rq_item_id rq \<mapsto> item'),
                        ledger := ledger core @ [mv] \<rparr>)))"

text \<open>Modelled from the spec: the two operations of section 6, at the time \<open>t\<close>.\<close>

definition recordPurchase :: "Core \<Rightarrow> int \<Rightarrow> int \<Rightarrow> int \<Rightarrow> (ledger_error + LedgerMovement) \<times> Core" where
  "recordPurchase core t itemId qty =
     recordMovement core
       \<lparr> rq_date = t, rq_item_id = itemId, rq_type = Purchase, rq_quantity = qty,
         rq_discount_percent = 0 \<rparr>"

definition recordSale ::
  "Core \<Rightarrow> int \<Rightarrow> int \<Rightarrow> int \<Rightarrow> real \<Rightarrow> (ledger_error + LedgerMovement) \<times> Core" where
  "recordSale core t itemId qty discountPercent =
     recordMovement core
       \<lparr> rq_date = t, rq_item_id = itemId, rq_type = Sale, rq_quantity = qty,
         rq_discount_percent = discountPercent \<rparr>"

text \<open>
  Modelled from the spec: reading an item's quantity back, by \<open>get(id)\<close> of the registry
  (section 4.1).
\<close>

definition quantityOf :: "Core \<Rightarrow> int \<Rightarrow> int option" where
  "quantityOf core i = map_option it_quantity (registry core i)"

text \<open>
  A sequence of requests, one after the other; a rejected request changes nothing. The result
  is the list of the movements that were applied, and the final state.
\<close>

fun applyRequests :: "Core \<Rightarrow> MovementRequest list \<Rightarrow> LedgerMovement list \<times> Core" where
  "applyRequests core [] = ([], core)"
| "applyRequests core (rq # rqs) =
     (case recordMovement core rq of
        (Inl e, core') \<Rightarrow> applyRequests core' rqs
      | (Inr mv, core') \<Rightarrow>
          (case applyRequests core' rqs of (mvs, core'') \<Rightarrow> (mv # mvs, core'')))"

text \<open>The quantity of item \<open>i\<close> moved by the movements of one type in a list.\<close>

definition movedQuantity :: "movement_kind \<Rightarrow> int \<Rightarrow> LedgerMovement list \<Rightarrow> int" where
  "movedQuantity k i mvs =
     sum_list (map lm_quantity (filter (\<lambda>m. lm_item_id m = i \<and> lm_type m = k) mvs))"

section \<open>Example data\<close>

text \<open>
  A host whose local time zone is UTC, with the dates used below tabulated (any other string
  is an invalid date) and the calendar tabulated for the first months of 2024. Now is
  2024-03-25T12:00:00.
\<close>

definition exampleHost :: Host where
  "exampleHost =
     \<lparr> parseDate = map_of
         [(''2024-01-05T08:00:00'', 1704441600000),
          (''2024-02-01T08:00:00'', 1706774400000),
          (''2024-02-15T12:00:00'', 1707998400000),
          (''2024-03-10T10:30:00'', 1710066600000),
          (''2024-03-20T09:00:00'', 1710925200000),
          (''2024-03-01'', 1709251200000),
          (''2024-03-15'', 1710460800000),
          (''2024-01-01'', 1704067200000),
          (''2024-03-31'', 1711843200000)],
       getMonth = (\<lambda>t. if t < 1706745600000 then 0 else if t < 1709251200000 then 1
                        else if t < 1711929600000 then 2 else 3),
       getFullYear = (\<lambda>t. 2024),
       now = 1711368000000 \<rparr>"

definition itemA :: StockItem where
  "itemA = \<lparr> item_id = 1, reference = ''SKU-A'', name = ''A'', item_quantity = 5,
             unit_price = 100, total_value = 500 \<rparr>"

definition itemB :: StockItem where
  "itemB = \<lparr> item_id = 2, reference = ''SKU-B'', name = ''B'', item_quantity = 12,
             unit_price = 50, total_value = 600 \<rparr>"

definition mkMovement ::
  "int \<Rightarrow> string \<Rightarrow> movement_kind \<Rightarrow> real \<Rightarrow> real \<Rightarrow> StockItem option \<Rightarrow> int \<Rightarrow> Movement" where
  "mkMovement i d k q disc s sid =
     \<lparr> movement_id = i, date = d, stock_id = sid, movement_type = k, quantity = q,
       discount_percent = disc, stock = s \<rparr>"

text \<open>
  Two purchases and three sales, newest first: item A is sold 2 + 3 = 5 times, item B 8 times.
\<close>

definition exampleMovements :: "Movement list" where
  "exampleMovements =
     [mkMovement 5 ''2024-03-20T09:00:00'' Sale 8 0 (Some itemB) 2,
      mkMovement 4 ''2024-03-10T10:30:00'' Sale 3 10 (Some itemA) 1,
      mkMovement 3 ''2024-02-15T12:00:00'' Sale 2 0 (Some itemA) 1,
      mkMovement 2 ''2024-02-01T08:00:00'' Purchase 20 0 (Some itemB) 2,
      mkMovement 1 ''2024-01-05T08:00:00'' Purchase 10 0 (Some itemA) 1]"

definition marchFirstHalf :: DateRange where
  "marchFirstHalf = \<lparr> startDate = ''2024-03-01'', endDate = ''2024-03-15'' \<rparr>"

definition firstQuarter :: DateRange where
  "firstQuarter = \<lparr> startDate = ''2024-01-01'', endDate = ''2024-03-31'' \<rparr>"

text \<open>
  The scenario of the specification: an item SKU1 with quantity 0 and price 50; a purchase of
  10, a sale of 4, and a sale of 10 that exceeds the 6 left.
\<close>

definition sku1 :: Item where
  "sku1 = \<lparr> it_reference = ''SKU1'', it_name = ''Widget'', it_quantity = 0, it_unit_price = 50 \<rparr>"

definition exampleCore :: Core where
  "exampleCore = \<lparr> registry = [1 \<mapsto> sku1], ledger = [] \<rparr>"

definition exampleRequests :: "MovementRequest list" where
  "exampleRequests =
     [\<lparr> rq_date = 100, rq_item_id = 1, rq_type = Purchase, rq_quantity = 10,
        rq_discount_percent = 0 \<rparr>,
      \<lparr> rq_date = 200, rq_item_id = 1, rq_type = Sale, rq_quantity = 4,
        rq_discount_percent = 0 \<rparr>,
      \<lparr> rq_date = 300, rq_item_id = 1, rq_type = Sale, rq_quantity = 10,
        rq_discount_percent = 0 \<rparr>]"


text \<open>
  The example movements, preceded by a sale whose item has been deleted: its \<open>stock_id\<close>
  resolves to no item and the movement carries none.
\<close>

definition danglingMovements :: "Movement list" where
  "danglingMovements =
     mkMovement 6 ''2024-03-10T10:30:00'' Sale 1 0 None 9 # exampleMovements"

section \<open>Properties of calculateMetrics\<close>

lemma inDateRange_iff: "inDateRange host dateRange m = dateWithin host dateRange (date m)"
  by (auto simp: inDateRange_def dateWithin_def date_ge_def date_le_def Let_def
      split: option.splits)

lemma filteredSales_eq:
  "filter (inDateRange host dateRange) (filter (\<lambda>m. movement_type m = Sale) ms) =
   salesInRange host dateRange ms"
  by (induction ms) (auto simp: salesInRange_def inDateRange_iff)

lemma reduceE_revenueStep:
  "\<forall>m \<in> set ms. carriesItem m \<Longrightarrow>
   reduceE revenueStep acc ms = Inr (acc + sum_list (map lineTotal ms))"
proof (induction ms arbitrary: acc)
  case Nil
  then show ?case by simp
next
  case (Cons m ms)
  from Cons.prems obtain s where s: "stock m = Some s"
    by (auto simp: carriesItem_def)
  have step: "revenueStep acc m = Inr (acc + lineTotal m)"
    by (simp add: revenueStep_def lineTotal_def unitPriceOf_def s Let_def)
  from Cons.prems have "\<forall>m \<in> set ms. carriesItem m" by simp
  then have "reduceE revenueStep (acc + lineTotal m) ms =
             Inr (acc + lineTotal m + sum_list (map lineTotal ms))"
    by (rule Cons.IH)
  then show ?case by (simp add: step add.assoc)
qed

lemma reduceE_purchaseStep:
  "\<forall>m \<in> set ms. carriesItem m \<Longrightarrow>
   reduceE purchaseStep acc ms = Inr (acc + sum_list (map purchaseCost ms))"
proof (induction ms arbitrary: acc)
  case Nil
  then show ?case by simp
next
  case (Cons m ms)
  from Cons.prems obtain s where s: "stock m = Some s"
    by (auto simp: carriesItem_def)
  have step: "purchaseStep acc m = Inr (acc + purchaseCost m)"
    by (simp add: purchaseStep_def purchaseCost_def unitPriceOf_def s)
  from Cons.prems have "\<forall>m \<in> set ms. carriesItem m" by simp
  then have "reduceE purchaseStep (acc + purchaseCost m) ms =
             Inr (acc + purchaseCost m + sum_list (map purchaseCost ms))"
    by (rule Cons.IH)
  then show ?case by (simp add: step add.assoc)
qed

lemma foldl_discount:
  "foldl (\<lambda>acc s. acc + discount_percent s) acc ms = acc + sum_list (map discount_percent ms)"
  by (induction ms arbitrary: acc) (simp_all add: add.assoc)

text \<open>The value of \<open>calculateMetrics\<close> on movements that all carry their item.\<close>

lemma calculateMetrics_value:
  assumes "list_all carriesItem movements"
  shows "calculateMetrics host dateRange movements =
    Inr \<lparr> totalRevenue = sum_list (map lineTotal (salesInRange host dateRange movements)),
          monthlyRevenue = sum_list (map lineTotal
             (filter (inCurrentMonth host) (filter (\<lambda>m. movement_type m = Sale) movements))),
          totalSales = length (salesInRange host dateRange movements),
          averageDiscount =
             (if length (salesInRange host dateRange movements) > 0
              then sum_list (map discount_percent (salesInRange host dateRange movements))
                     / real (length (salesInRange host dateRange movements))
              else 0),
          totalPurchases = length (filter (\<lambda>m. movement_type m = Purchase) movements),
          netCashFlow = sum_list (map lineTotal (salesInRange host dateRange movements))
             - sum_list (map purchaseCost (filter (\<lambda>m. movement_type m = Purchase) movements)) \<rparr>"
proof -
  have a: "\<forall>m \<in> set (salesInRange host dateRange movements). carriesItem m"
    using assms by (simp add: salesInRange_def list_all_iff)
  have b: "\<forall>m \<in> set (filter (inCurrentMonth host)
              (filter (\<lambda>m. movement_type m = Sale) movements)). carriesItem m"
    using assms by (simp add: list_all_iff)
  have c: "\<forall>m \<in> set (filter (\<lambda>m. movement_type m = Purchase) movements). carriesItem m"
    using assms by (simp add: list_all_iff)
  show ?thesis
    unfolding calculateMetrics_def Let_def filteredSales_eq
      reduceE_revenueStep [OF a] reduceE_revenueStep [OF b] reduceE_purchaseStep [OF c]
      foldl_discount
    by simp
qed

subsection \<open>The example data evaluated\<close>

lemmas example_defs = exampleHost_def exampleMovements_def marchFirstHalf_def firstQuarter_def
  itemA_def itemB_def mkMovement_def

lemma example_carriesItem: "list_all carriesItem exampleMovements"
  by (simp add: example_defs carriesItem_def)

lemma example_salesInRange:
  "salesInRange exampleHost marchFirstHalf exampleMovements =
   [mkMovement 4 ''2024-03-10T10:30:00'' Sale 3 10 (Some itemA) 1]"
  by (simp add: example_defs salesInRange_def dateWithin_def)

lemma example_purchases:
  "filter (\<lambda>m. movement_type m = Purchase) exampleMovements =
   [mkMovement 2 ''2024-02-01T08:00:00'' Purchase 20 0 (Some itemB) 2,
    mkMovement 1 ''2024-01-05T08:00:00'' Purchase 10 0 (Some itemA) 1]"
  by (simp add: example_defs)

section \<open>The claims about calculateMetrics\<close>

text \<open>
  Claim C2. For every list of movements (each carrying its item, as the interface declares) and
  every date range, \<open>calculateMetrics\<close> returns, and its \<open>totalRevenue\<close> is the sum, over the
  sale movements whose date lies in \<open>[start, end]\<close> with both ends included, of
  \<open>unit_price * (1 - discount_percent / 100) * quantity\<close>, the unit price being the one of the
  item object that the movement carries when the metrics are computed.
\<close>

theorem totalRevenue_sum_of_line_totals:
  assumes "list_all carriesItem movements"
  shows "\<exists>r. calculateMetrics host dateRange movements = Inr r \<and>
             totalRevenue r = sum_list (map lineTotal (salesInRange host dateRange movements))"
  by (simp add: calculateMetrics_value [OF assms])

theorem totalRevenue_sum_of_line_totals_witness:
  "list_all carriesItem exampleMovements \<and>
   (\<exists>r. calculateMetrics exampleHost marchFirstHalf exampleMovements = Inr r \<and>
        totalRevenue r = 270)"
proof -
  have "sum_list (map lineTotal (salesInRange exampleHost marchFirstHalf exampleMovements)) = 270"
    unfolding example_salesInRange
    by (simp add: lineTotal_def unitPriceOf_def mkMovement_def itemA_def)
  with totalRevenue_sum_of_line_totals [OF example_carriesItem, of exampleHost marchFirstHalf]
  show ?thesis using example_carriesItem by simp
qed

text \<open>
  Claim C4. For every list of movements and every date range, \<open>netCashFlow\<close> is the
  \<open>totalRevenue\<close> of the range minus the total purchase cost, which is the sum of
  \<open>unit_price * quantity\<close> over all purchase movements, with no date filter.
\<close>

theorem netCashFlow_revenue_minus_all_purchases:
  assumes "list_all carriesItem movements"
  shows "\<exists>r. calculateMetrics host dateRange movements = Inr r \<and>
             netCashFlow r = totalRevenue r
               - sum_list (map purchaseCost (filter (\<lambda>m. movement_type m = Purchase) movements)) \<and>
             totalRevenue r = sum_list (map lineTotal (salesInRange host dateRange movements))"
  by (simp add: calculateMetrics_value [OF assms])

theorem netCashFlow_revenue_minus_all_purchases_witness:
  "list_all carriesItem exampleMovements \<and>
   (\<exists>r. calculateMetrics exampleHost marchFirstHalf exampleMovements = Inr r \<and>
        netCashFlow r = totalRevenue r - 2000 \<and> totalRevenue r = 270)"
proof -
  have "sum_list (map lineTotal (salesInRange exampleHost marchFirstHalf exampleMovements)) = 270"
    unfolding example_salesInRange
    by (simp add: lineTotal_def unitPriceOf_def mkMovement_def itemA_def)
  moreover have "sum_list (map purchaseCost
      (filter (\<lambda>m. movement_type m = Purchase) exampleMovements)) = 2000"
    unfolding example_purchases
    by (simp add: purchaseCost_def unitPriceOf_def mkMovement_def itemA_def itemB_def)
  ultimately show ?thesis
    using netCashFlow_revenue_minus_all_purchases
            [OF example_carriesItem, of exampleHost marchFirstHalf]
          example_carriesItem
    by simp
qed

text \<open>
  Claim C9. For every list of movements and every date range, \<open>averageDiscount\<close> is the
  arithmetic mean of \<open>discount_percent\<close> over the sale movements whose date lies in the range,
  and 0 when there is no such sale.
\<close>

theorem averageDiscount_mean_or_zero:
  assumes "list_all carriesItem movements"
  shows "\<exists>r. calculateMetrics host dateRange movements = Inr r \<and>
             averageDiscount r =
               (if salesInRange host dateRange movements = [] then 0
                else sum_list (map discount_percent (salesInRange host dateRange movements))
                       / real (length (salesInRange host dateRange movements)))"
  by (simp add: calculateMetrics_value [OF assms])

theorem averageDiscount_mean_or_zero_witness:
  "list_all carriesItem exampleMovements \<and>
   (\<exists>r. calculateMetrics exampleHost firstQuarter exampleMovements = Inr r \<and>
        averageDiscount r = 10 / 3)"
proof -
  have s: "salesInRange exampleHost firstQuarter exampleMovements =
     [mkMovement 5 ''2024-03-20T09:00:00'' Sale 8 0 (Some itemB) 2,
      mkMovement 4 ''2024-03-10T10:30:00'' Sale 3 10 (Some itemA) 1,
      mkMovement 3 ''2024-02-15T12:00:00'' Sale 2 0 (Some itemA) 1]"
    by (simp add: example_defs salesInRange_def dateWithin_def)
  show ?thesis
    using averageDiscount_mean_or_zero [OF example_carriesItem, of exampleHost firstQuarter]
          example_carriesItem
    unfolding s by (simp add: mkMovement_def)
qed

text \<open>
  Claim C10. \<open>monthlyRevenue\<close> does not depend on the date range: for two date ranges, the
  same movements and the same current date it is the same number, namely the sum of the line
  totals of all sale movements whose date is in the current month and year.
\<close>

theorem monthlyRevenue_independent_of_range:
  assumes "list_all carriesItem movements"
  shows "\<exists>r1 r2. calculateMetrics host dateRange1 movements = Inr r1 \<and>
                 calculateMetrics host dateRange2 movements = Inr r2 \<and>
                 monthlyRevenue r1 = monthlyRevenue r2 \<and>
                 monthlyRevenue r1 = sum_list (map lineTotal
                   (filter (\<lambda>m. movement_type m = Sale \<and> inCurrentMonth host m) movements))"
proof -
  have "filter (inCurrentMonth host) (filter (\<lambda>m. movement_type m = Sale) movements) =
        filter (\<lambda>m. movement_type m = Sale \<and> inCurrentMonth host m) movements"
    by (induction movements) auto
  then show ?thesis
    by (simp add: calculateMetrics_value [OF assms])
qed

theorem monthlyRevenue_independent_of_range_witness:
  "list_all carriesItem exampleMovements \<and>
   (\<exists>r1 r2. calculateMetrics exampleHost marchFirstHalf exampleMovements = Inr r1 \<and>
            calculateMetrics exampleHost firstQuarter exampleMovements = Inr r2 \<and>
            monthlyRevenue r1 = monthlyRevenue r2 \<and> monthlyRevenue r1 = 670)"
proof -
  have m: "filter (\<lambda>m. movement_type m = Sale \<and> inCurrentMonth exampleHost m) exampleMovements =
   [mkMovement 5 ''2024-03-20T09:00:00'' Sale 8 0 (Some itemB) 2,
    mkMovement 4 ''2024-03-10T10:30:00'' Sale 3 10 (Some itemA) 1]"
    by (simp add: example_defs inCurrentMonth_def)
  have "sum_list (map lineTotal
     (filter (\<lambda>m. movement_type m = Sale \<and> inCurrentMonth exampleHost m) exampleMovements)) = 670"
    unfolding m by (simp add: lineTotal_def unitPriceOf_def mkMovement_def itemA_def itemB_def)
  with monthlyRevenue_independent_of_range
         [OF example_carriesItem, of exampleHost marchFirstHalf firstQuarter]
  show ?thesis using example_carriesItem by simp
qed

section \<open>The sales table\<close>








section \<open>Best sellers\<close>

lemma insertBy_quantity:
  "insertBy compareQuantityDesc x ys = insort_key (\<lambda>e. - bs_quantity e) x ys"
  by (induction ys) (auto simp: compareQuantityDesc_def compareResult_def)

lemma sortBy_quantity: "sortBy compareQuantityDesc xs = sort_key (\<lambda>e. - bs_quantity e) xs"
  by (induction xs) (simp_all add: sortBy_def insertBy_quantity)

lemma reduceE_snoc:
  "reduceE f acc (xs @ [x]) = (case reduceE f acc xs of Inl e \<Rightarrow> Inl e | Inr a \<Rightarrow> f a x)"
  by (induction xs arbitrary: acc) (auto split: sum.splits)

lemma mapSet_new: "k \<notin> fst ` set kvs \<Longrightarrow> mapSet k v kvs = kvs @ [(k, v)]"
  by (induction kvs) auto

lemma mapSet_present:
  "distinct ns \<Longrightarrow> k \<in> set ns \<Longrightarrow>
   mapSet k v (map (\<lambda>n. (n, f n)) ns) = map (\<lambda>n. (n, if n = k then v else f n)) ns"
  by (induction ns) auto

lemma map_of_tabulated:
  "map_of (map (\<lambda>n. (n, f n)) ns) k = (if k \<in> set ns then Some (f k) else None)"
  by (induction ns) auto

lemma namesInOrder_snoc:
  "namesInOrder (ms @ [m]) =
     (if itemNameOf m \<in> set (map itemNameOf ms) then namesInOrder ms
      else namesInOrder ms @ [itemNameOf m])"
  by (simp add: namesInOrder_def)

lemma distinct_namesInOrder: "distinct (namesInOrder ms)"
  by (simp add: namesInOrder_def)

lemma set_namesInOrder: "set (namesInOrder ms) = itemNameOf ` set ms"
  by (simp add: namesInOrder_def)

lemma bestSellerStep_snoc:
  assumes "carriesItem m"
  shows "bestSellerStep (map (\<lambda>n. (n, totalsOf ms n)) (namesInOrder ms)) m =
         Inr (map (\<lambda>n. (n, totalsOf (ms @ [m]) n)) (namesInOrder (ms @ [m])))"
proof -
  from assms obtain s where s: "stock m = Some s"
    by (auto simp: carriesItem_def)
  let ?k = "name s"
  have k: "itemNameOf m = ?k" by (simp add: itemNameOf_def s)
  have lt: "lineTotal m = unit_price s * (1 - discount_percent m / 100) * quantity m"
    by (simp add: lineTotal_def unitPriceOf_def s)
  have other: "totalsOf (ms @ [m]) n = totalsOf ms n" if "n \<noteq> ?k" for n
    using that by (auto simp: totalsOf_def k)
  show ?thesis
  proof (cases "?k \<in> set (namesInOrder ms)")
    case True
    have names: "namesInOrder (ms @ [m]) = namesInOrder ms"
      using True by (simp add: namesInOrder_snoc k set_namesInOrder)
    have this_one: "totalsOf (ms @ [m]) ?k =
        \<lparr> sold_quantity = sold_quantity (totalsOf ms ?k) + quantity m,
          sold_revenue = sold_revenue (totalsOf ms ?k) + lineTotal m \<rparr>"
      by (simp add: totalsOf_def k)
    have "bestSellerStep (map (\<lambda>n. (n, totalsOf ms n)) (namesInOrder ms)) m =
          Inr (map (\<lambda>n. (n, if n = ?k then totalsOf (ms @ [m]) ?k else totalsOf ms n))
                 (namesInOrder ms))"
      using True
      by (simp add: bestSellerStep_def s Let_def map_of_tabulated this_one lt
          mapSet_present [OF distinct_namesInOrder])
    also have "map (\<lambda>n. (n, if n = ?k then totalsOf (ms @ [m]) ?k else totalsOf ms n))
                 (namesInOrder ms) =
               map (\<lambda>n. (n, totalsOf (ms @ [m]) n)) (namesInOrder ms)"
      by (rule map_cong) (auto simp: other)
    finally show ?thesis by (simp add: names)
  next
    case False
    have names: "namesInOrder (ms @ [m]) = namesInOrder ms @ [?k]"
      using False by (simp add: namesInOrder_snoc k set_namesInOrder)
    have none: "filter (\<lambda>m. itemNameOf m = ?k) ms = []"
      using False by (force simp: set_namesInOrder filter_empty_conv)
    have this_one: "totalsOf (ms @ [m]) ?k =
        \<lparr> sold_quantity = 0 + quantity m, sold_revenue = 0 + lineTotal m \<rparr>"
      by (simp add: totalsOf_def k none)
    have fresh: "?k \<notin> fst ` set (map (\<lambda>n. (n, totalsOf ms n)) (namesInOrder ms))"
      using False by (auto simp: image_iff)
    have step: "bestSellerStep (map (\<lambda>n. (n, totalsOf ms n)) (namesInOrder ms)) m =
          Inr (map (\<lambda>n. (n, totalsOf ms n)) (namesInOrder ms) @ [(?k, totalsOf (ms @ [m]) ?k)])"
      using False
      by (simp add: bestSellerStep_def s Let_def map_of_tabulated this_one lt
          mapSet_new [OF fresh])
    have same: "map (\<lambda>n. (n, totalsOf ms n)) (namesInOrder ms) =
               map (\<lambda>n. (n, totalsOf (ms @ [m]) n)) (namesInOrder ms)"
    proof (rule map_cong)
      fix n assume "n \<in> set (namesInOrder ms)"
      with False have "n \<noteq> ?k" by auto
      then show "(n, totalsOf ms n) = (n, totalsOf (ms @ [m]) n)"
        by (simp add: other)
    qed simp
    show ?thesis
      unfolding step names by (simp add: same)
  qed
qed

lemma reduceE_bestSellerStep:
  "list_all carriesItem ms \<Longrightarrow>
   reduceE bestSellerStep [] ms = Inr (map (\<lambda>n. (n, totalsOf ms n)) (namesInOrder ms))"
proof (induction ms rule: rev_induct)
  case Nil
  then show ?case by (simp add: namesInOrder_def)
next
  case (snoc m ms)
  then have "reduceE bestSellerStep [] ms = Inr (map (\<lambda>n. (n, totalsOf ms n)) (namesInOrder ms))"
    and "carriesItem m"
    by simp_all
  then show ?case
    by (simp add: reduceE_snoc bestSellerStep_snoc)
qed

lemma getBestSellers_value:
  assumes "list_all carriesItem movements"
  shows "getBestSellers movements = Inr (bestSellersSpec 5 movements)"
proof -
  let ?sales = "filter (\<lambda>m. movement_type m = Sale) movements"
  have "list_all carriesItem ?sales"
    using assms by (simp add: list_all_iff)
  then have "reduceE bestSellerStep [] ?sales =
             Inr (map (\<lambda>n. (n, totalsOf ?sales n)) (namesInOrder ?sales))"
    by (rule reduceE_bestSellerStep)
  moreover have "map (\<lambda>(n, data). \<lparr> bs_name = n, bs_quantity = sold_quantity data,
                                     bs_revenue = sold_revenue data \<rparr>)
                   (map (\<lambda>n. (n, totalsOf ?sales n)) (namesInOrder ?sales)) =
                 salesByName ?sales"
    by (simp add: salesByName_def groupOf_def comp_def)
  ultimately show ?thesis
    by (simp add: getBestSellers_def bestSellersSpec_def Let_def sortBy_quantity)
qed


text \<open>
  Claim C5, as amended. \<open>getBestSellers\<close> takes no limit: it groups all sale movements by
  item name, summing quantity and discounted revenue per name, sorts the groups in descending
  order of total quantity with ties kept in insertion order, and keeps the first five.
\<close>

theorem bestSellers_first_five:
  assumes "list_all carriesItem movements"
  shows "getBestSellers movements = Inr (bestSellersSpec 5 movements)"
  using assms by (rule getBestSellers_value)

lemma example_bestSellersSpec_5:
  "bestSellersSpec 5 exampleMovements =
     [\<lparr> bs_name = ''B'', bs_quantity = 8, bs_revenue = 400 \<rparr>,
      \<lparr> bs_name = ''A'', bs_quantity = 5, bs_revenue = 470 \<rparr>]"
  by (simp add: bestSellersSpec_def salesByName_def groupOf_def totalsOf_def namesInOrder_def
      itemNameOf_def lineTotal_def unitPriceOf_def example_defs)

lemma example_bestSellersSpec_1:
  "bestSellersSpec 1 exampleMovements =
     [\<lparr> bs_name = ''B'', bs_quantity = 8, bs_revenue = 400 \<rparr>]"
  by (simp add: bestSellersSpec_def salesByName_def groupOf_def totalsOf_def namesInOrder_def
      itemNameOf_def lineTotal_def unitPriceOf_def example_defs)

lemma example_getBestSellers:
  "getBestSellers exampleMovements =
     Inr [\<lparr> bs_name = ''B'', bs_quantity = 8, bs_revenue = 400 \<rparr>,
          \<lparr> bs_name = ''A'', bs_quantity = 5, bs_revenue = 470 \<rparr>]"
  by (simp add: getBestSellers_def bestSellerStep_def sortBy_def compareQuantityDesc_def
      compareResult_def example_defs)

text \<open>
  Claim C5, as stated, fails: with sales of item A of total quantity 5 and of item B of total
  quantity 8 the result has both entries, B then A, where a limit of 1 would leave only B.
\<close>

theorem bestSellers_limit_counterexample:
  "getBestSellers exampleMovements =
     Inr [\<lparr> bs_name = ''B'', bs_quantity = 8, bs_revenue = 400 \<rparr>,
          \<lparr> bs_name = ''A'', bs_quantity = 5, bs_revenue = 470 \<rparr>] \<and>
   getBestSellers exampleMovements \<noteq> Inr (bestSellersSpec 1 exampleMovements)"
  unfolding example_getBestSellers example_bestSellersSpec_1 by simp

theorem bestSellers_first_five_witness:
  "list_all carriesItem exampleMovements \<and>
   getBestSellers exampleMovements =
     Inr [\<lparr> bs_name = ''B'', bs_quantity = 8, bs_revenue = 400 \<rparr>,
          \<lparr> bs_name = ''A'', bs_quantity = 5, bs_revenue = 470 \<rparr>]"
  using bestSellers_first_five [OF example_carriesItem] example_carriesItem
  unfolding example_bestSellersSpec_5 by simp

section \<open>Movements of deleted items\<close>

text \<open>
  Claim C8, as stated, fails: for a sale in the range whose item is gone, \<open>calculateMetrics\<close>
  and \<open>getBestSellers\<close> throw \<^verbatim>\<open>TypeError\<close>; neither result has a field
  \<^verbatim>\<open>itemDeleted\<close>.
\<close>

theorem deleted_item_counterexample:
  "calculateMetrics exampleHost marchFirstHalf danglingMovements = Inl TypeError \<and>
   getBestSellers danglingMovements = Inl TypeError"
  by (simp add: calculateMetrics_def getBestSellers_def revenueStep_def bestSellerStep_def
      inDateRange_def date_ge_def date_le_def danglingMovements_def example_defs)

text \<open>
  Claim C8, as amended. The computations have no handling of deleted items. They read name
  and unit price from the item object that each movement carries, and when every movement
  carries one, as the interface declares, they complete without error; the names reported by
  \<open>getBestSellers\<close> are names of the items carried by the sales.
\<close>

theorem carried_items_complete:
  assumes "list_all carriesItem movements"
  shows "(\<exists>r. calculateMetrics host dateRange movements = Inr r) \<and>
         (\<exists>bs. getBestSellers movements = Inr bs \<and>
               bs_name ` set bs \<subseteq> itemNameOf ` set (filter (\<lambda>m. movement_type m = Sale) movements))"
proof -
  have "\<exists>r. calculateMetrics host dateRange movements = Inr r"
    by (simp add: calculateMetrics_value [OF assms])
  moreover have "getBestSellers movements = Inr (bestSellersSpec 5 movements)"
    using assms by (rule getBestSellers_value)
  moreover have "bs_name ` set (bestSellersSpec 5 movements) \<subseteq>
                 itemNameOf ` set (filter (\<lambda>m. movement_type m = Sale) movements)"
  proof -
    have "set (bestSellersSpec 5 movements) \<subseteq>
          set (salesByName (filter (\<lambda>m. movement_type m = Sale) movements))"
      unfolding bestSellersSpec_def using set_take_subset by fastforce
    then have "bs_name ` set (bestSellersSpec 5 movements) \<subseteq>
               bs_name ` set (salesByName (filter (\<lambda>m. movement_type m = Sale) movements))"
      by (rule image_mono)
    also have "\<dots> = set (namesInOrder (filter (\<lambda>m. movement_type m = Sale) movements))"
      by (simp add: salesByName_def groupOf_def image_image)
    finally show ?thesis by (simp add: set_namesInOrder)
  qed
  ultimately show ?thesis by simp
qed

theorem carried_items_complete_witness:
  "list_all carriesItem exampleMovements \<and>
   (\<exists>r. calculateMetrics exampleHost marchFirstHalf exampleMovements = Inr r) \<and>
   (\<exists>bs. getBestSellers exampleMovements = Inr bs \<and> bs_name ` set bs \<subseteq> {''B'', ''A''})"
proof -
  have "itemNameOf ` set (filter (\<lambda>m. movement_type m = Sale) exampleMovements) = {''B'', ''A''}"
    by (simp add: itemNameOf_def example_defs)
  with carried_items_complete [OF example_carriesItem, of exampleHost marchFirstHalf]
  show ?thesis using example_carriesItem by simp
qed

section \<open>Evaluating calculateMetrics twice\<close>

lemma calculateMetricsIn_result:
  assumes "a < length st"
  shows "\<exists>ext. calculateMetricsIn host dateRange a st =
               (calculateMetrics host dateRange (st ! a), st @ ext)"
  using assms
  by (auto simp: calculateMetricsIn_def calculateMetrics_def arrayFilter_def arrayReduce_def
      arrayLength_def nth_append Let_def split: sum.splits)

text \<open>
  Claim C7. Evaluating the financial summary is deterministic and writes nothing: on the
  store, \<open>calculateMetrics\<close> only allocates new arrays, so every array that existed before,
  the movements (with their items) among them, is as it was; the result is a function of the
  movements, the date range and the host's clock alone, and a second evaluation, on the store
  the first one left, yields the same result.
\<close>

theorem calculateMetrics_repeatable_and_read_only:
  assumes "movements < length st"
  shows "case calculateMetricsIn host dateRange movements st of
           (r, st') \<Rightarrow>
             prefix st st' \<and> st' ! movements = st ! movements \<and>
             r = calculateMetrics host dateRange (st ! movements) \<and>
             fst (calculateMetricsIn host dateRange movements st') = r"
proof -
  from calculateMetricsIn_result [OF assms]
  obtain ext where one:
    "calculateMetricsIn host dateRange movements st =
       (calculateMetrics host dateRange (st ! movements), st @ ext)"
    by blast
  have "movements < length (st @ ext)" using assms by simp
  from calculateMetricsIn_result [OF this]
  obtain ext' where two:
    "calculateMetricsIn host dateRange movements (st @ ext) =
       (calculateMetrics host dateRange ((st @ ext) ! movements), (st @ ext) @ ext')"
    by blast
  show ?thesis
    using assms by (simp add: one two nth_append)
qed

theorem calculateMetrics_repeatable_and_read_only_witness:
  "(0::nat) < length [exampleMovements] \<and>
   (case calculateMetricsIn exampleHost marchFirstHalf 0 [exampleMovements] of
      (r, st') \<Rightarrow> prefix [exampleMovements] st' \<and> st' ! 0 = exampleMovements \<and>
        r = calculateMetrics exampleHost marchFirstHalf exampleMovements \<and>
        fst (calculateMetricsIn exampleHost marchFirstHalf 0 st') = r)"
  using calculateMetrics_repeatable_and_read_only
          [of 0 "[exampleMovements]" exampleHost marchFirstHalf]
  by simp

section \<open>Properties of the movement ledger\<close>

lemma recordMovement_rejected:
  "recordMovement core rq = (Inl e, core') \<Longrightarrow> core' = core"
  by (auto simp: recordMovement_def Let_def split: option.splits if_splits)

lemma recordMovement_applied:
  assumes "recordMovement core rq = (Inr mv, core')"
    and "registry core i = Some item" and "0 \<le> it_quantity item"
  shows "\<exists>item'. registry core' i = Some item' \<and> 0 \<le> it_quantity item' \<and>
           it_quantity item' = it_quantity item
             + movedQuantity Purchase i [mv] - movedQuantity Sale i [mv]"
    and "ledger core' = ledger core @ [mv]"
  using assms
  by (auto simp: recordMovement_def Let_def movedQuantity_def
      split: option.splits if_splits movement_kind.splits)

lemma movedQuantity_Cons:
  "movedQuantity k i (mv # mvs) = movedQuantity k i [mv] + movedQuantity k i mvs"
  by (simp add: movedQuantity_def)

lemma applyRequests_invariant:
  assumes "registry core i = Some item" and "0 \<le> it_quantity item"
    and "applyRequests core rqs = (applied, core')"
  shows "quantityOf core' i =
           Some (it_quantity item + movedQuantity Purchase i applied
                   - movedQuantity Sale i applied) \<and>
         0 \<le> it_quantity item + movedQuantity Purchase i applied - movedQuantity Sale i applied \<and>
         ledger core' = ledger core @ applied"
  using assms
proof (induction rqs arbitrary: core item applied)
  case Nil
  then show ?case by (simp add: quantityOf_def movedQuantity_def)
next
  case (Cons rq rqs)
  obtain res core1 where step: "recordMovement core rq = (res, core1)"
    by (cases "recordMovement core rq")
  show ?case
  proof (cases res)
    case (Inl e)
    with step have same: "core1 = core" by (simp add: recordMovement_rejected)
    from Cons.prems(3) step Inl same have "applyRequests core rqs = (applied, core')"
      by simp
    from Cons.IH [OF Cons.prems(1) Cons.prems(2) this] show ?thesis .
  next
    case (Inr mv)
    obtain mvs core2 where rest: "applyRequests core1 rqs = (mvs, core2)"
      by (cases "applyRequests core1 rqs")
    from Cons.prems(3) step Inr rest have res: "applied = mv # mvs" "core' = core2"
      by simp_all
    from step Inr have st: "recordMovement core rq = (Inr mv, core1)" by simp
    from recordMovement_applied(1) [OF st Cons.prems(1) Cons.prems(2)]
    obtain item1 where i1: "registry core1 i = Some item1" "0 \<le> it_quantity item1"
      "it_quantity item1 = it_quantity item
         + movedQuantity Purchase i [mv] - movedQuantity Sale i [mv]"
      by blast
    have l1: "ledger core1 = ledger core @ [mv]"
      by (rule recordMovement_applied(2) [OF st Cons.prems(1) Cons.prems(2)])
    from rest res(2) have rest': "applyRequests core1 rqs = (mvs, core')" by simp
    from Cons.IH [OF i1(1) i1(2) rest']
    show ?thesis
      unfolding res
      by (simp add: i1(3) l1 movedQuantity_Cons [of _ _ mv mvs])
  qed
qed

text \<open>
  Claim C1. After every prefix of a sequence of requests, the quantity of an item is its
  initial quantity plus the quantities of the purchase movements applied to it minus the
  quantities of the sale movements applied to it, and it is not negative. The movements applied
  are those that were not rejected; they are what the ledger has gained.
\<close>

theorem quantity_is_initial_plus_purchases_minus_sales:
  assumes "registry core i = Some item" and "0 \<le> it_quantity item"
  shows "case applyRequests core (take k rqs) of
           (applied, core') \<Rightarrow>
             quantityOf core' i =
               Some (it_quantity item + movedQuantity Purchase i applied
                       - movedQuantity Sale i applied) \<and>
             0 \<le> it_quantity item + movedQuantity Purchase i applied
                   - movedQuantity Sale i applied \<and>
             ledger core' = ledger core @ applied"
proof -
  obtain applied core' where run: "applyRequests core (take k rqs) = (applied, core')"
    by (cases "applyRequests core (take k rqs)")
  from applyRequests_invariant [OF assms run] show ?thesis
    by (simp add: run)
qed

lemmas scenario_defs = exampleCore_def exampleRequests_def sku1_def

lemma scenario_run:
  "applyRequests exampleCore exampleRequests =
     ([\<lparr> lm_id = 1, lm_date = 100, lm_item_id = 1, lm_type = Purchase, lm_quantity = 10,
         lm_discount_percent = 0 \<rparr>,
       \<lparr> lm_id = 2, lm_date = 200, lm_item_id = 1, lm_type = Sale, lm_quantity = 4,
         lm_discount_percent = 0 \<rparr>],
      \<lparr> registry = [1 \<mapsto> sku1 \<lparr> it_quantity := 6 \<rparr>],
        ledger =
          [\<lparr> lm_id = 1, lm_date = 100, lm_item_id = 1, lm_type = Purchase, lm_quantity = 10,
             lm_discount_percent = 0 \<rparr>,
           \<lparr> lm_id = 2, lm_date = 200, lm_item_id = 1, lm_type = Sale, lm_quantity = 4,
             lm_discount_percent = 0 \<rparr>] \<rparr>)"
  by (simp add: scenario_defs recordMovement_def Let_def)

theorem quantity_is_initial_plus_purchases_minus_sales_witness:
  "registry exampleCore 1 = Some sku1 \<and> 0 \<le> it_quantity sku1 \<and>
   quantityOf (snd (applyRequests exampleCore (take 3 exampleRequests))) 1 = Some (0 + 10 - 4)"
proof -
  have a: "registry exampleCore 1 = Some sku1" by (simp add: exampleCore_def)
  have b: "0 \<le> it_quantity sku1" by (simp add: sku1_def)
  have t: "take 3 exampleRequests = exampleRequests" by (simp add: exampleRequests_def)
  have m: "movedQuantity Purchase 1 (fst (applyRequests exampleCore exampleRequests)) = 10"
          "movedQuantity Sale 1 (fst (applyRequests exampleCore exampleRequests)) = 4"
    unfolding scenario_run by (simp_all add: movedQuantity_def)
  from quantity_is_initial_plus_purchases_minus_sales [OF a b, of 3 exampleRequests]
  have "quantityOf (snd (applyRequests exampleCore exampleRequests)) 1 =
        Some (it_quantity sku1
              + movedQuantity Purchase 1 (fst (applyRequests exampleCore exampleRequests))
              - movedQuantity Sale 1 (fst (applyRequests exampleCore exampleRequests)))"
    unfolding t by (simp add: case_prod_beta)
  then show ?thesis using a b unfolding m t by (simp add: sku1_def)
qed

text \<open>
  Claim C3. A sale whose quantity exceeds the item's current quantity is rejected, with
  \<open>InsufficientStock\<close> when the request has passed validation (its discount is in [0, 100]),
  and the state returned is the state before the attempt: reading the item back gives the
  quantity it had, and the ledger is as it was.
\<close>

theorem sale_exceeding_stock_rejected:
  assumes "registry core itemId = Some item" and "0 \<le> it_quantity item"
    and "it_quantity item < qty"
  shows "(\<exists>e. recordSale core t itemId qty discountPercent = (Inl e, core)) \<and>
         ((0 \<le> discountPercent \<and> discountPercent \<le> 100) \<longrightarrow>
            recordSale core t itemId qty discountPercent = (Inl InsufficientStock, core)) \<and>
         quantityOf (snd (recordSale core t itemId qty discountPercent)) itemId =
           Some (it_quantity item) \<and>
         ledger (snd (recordSale core t itemId qty discountPercent)) = ledger core"
  using assms
  by (auto simp: recordSale_def recordMovement_def quantityOf_def)

theorem sale_exceeding_stock_rejected_witness:
  "registry (snd (applyRequests exampleCore exampleRequests)) 1 = Some (sku1 \<lparr> it_quantity := 6 \<rparr>) \<and>
   0 \<le> it_quantity (sku1 \<lparr> it_quantity := 6 \<rparr>) \<and>
   it_quantity (sku1 \<lparr> it_quantity := 6 \<rparr>) < 10 \<and>
   recordSale (snd (applyRequests exampleCore exampleRequests)) 300 1 10 0 =
     (Inl InsufficientStock, snd (applyRequests exampleCore exampleRequests)) \<and>
   quantityOf (snd (recordSale (snd (applyRequests exampleCore exampleRequests)) 300 1 10 0)) 1 =
     Some 6"
proof -
  let ?core = "snd (applyRequests exampleCore exampleRequests)"
  have a: "registry ?core 1 = Some (sku1 \<lparr> it_quantity := 6 \<rparr>)"
    unfolding scenario_run by simp
  have b: "0 \<le> it_quantity (sku1 \<lparr> it_quantity := 6 \<rparr>)" by simp
  have c: "it_quantity (sku1 \<lparr> it_quantity := 6 \<rparr>) < 10" by simp
  from sale_exceeding_stock_rejected [OF a b c, of 300 0]
  show ?thesis using a by (simp add: quantityOf_def)
qed

end
